theory Spec2Isabelle
  imports Complex_Main
begin

section \<open>Attraction-coefficient models of the cubic equations of state\<close>

text \<open>
  The module \<^verbatim>\<open>pythermophy/cubic_eos.py\<close> defines three subclasses of \<^verbatim>\<open>CubicEOS\<close>:
  \<^verbatim>\<open>RedlichKwong\<close>, \<^verbatim>\<open>SoaveRedlichKwong\<close> and \<^verbatim>\<open>PengRobinson\<close>. Each constructor
  reads the critical constants of a fluid, computes \<^verbatim>\<open>a0\<close>, \<^verbatim>\<open>b1\<close> (and \<^verbatim>\<open>kappa\<close>) and
  calls the constructor of the parent class; each class has the three methods
  \<^verbatim>\<open>get_a\<close>, \<^verbatim>\<open>get_diff_a_T\<close> and \<^verbatim>\<open>get_double_diff_a_T\<close>.

  Numbers. The Python code computes with floating-point numbers; the properties
  studied here are properties of the formulas over the real numbers, so a Python
  float is modelled by a \<^typ>\<open>real\<close> and rounding is left out. Temperatures are
  scalars.

  Errors. Python's \<^verbatim>\<open>/\<close> raises \<^verbatim>\<open>ZeroDivisionError\<close> on a zero divisor, and
  \<^verbatim>\<open>x ** 0.5\<close> leaves the real numbers on a negative base (Python 2 raises
  \<^verbatim>\<open>ValueError\<close>, Python 3 answers with a complex number). Both are branches of the
  model: every operation returns a value of type \<open>py_error + real\<close>.

  Range. On floats \<^verbatim>\<open>x ** 2\<close> raises \<^verbatim>\<open>OverflowError\<close> when the square of a finite
  \<^verbatim>\<open>x\<close> leaves the float range (beyond about \<open>1.3\<cdot>10\<^sup>1\<^sup>5\<^sup>4\<close> in absolute value); the reals
  have no such bound and the model has no such branch. A statement about which
  exception a call raises, or about a call raising none, is therefore made only for
  numbers whose squares stay in range; \<open>10\<^sup>1\<^sup>5\<^sup>0\<close> is the bound used.
\<close>

subsection \<open>Arithmetic of the source language\<close>

datatype py_error =
    ZeroDivisionError   \<comment> \<open>raised by \<^verbatim>\<open>/\<close> on a zero divisor\<close>
  | NegativeBasePower   \<comment> \<open>\<^verbatim>\<open>x ** 0.5\<close> with \<^verbatim>\<open>x < 0\<close>: no real result\<close>
  | ConfigError         \<comment> \<open>the error kind named by the specification; no statement of the module raises it\<close>

type_synonym 'a result = "py_error + 'a"

definition and_then :: "'a result \<Rightarrow> ('a \<Rightarrow> 'b result) \<Rightarrow> 'b result" where
  "and_then r k = (case r of Inl err \<Rightarrow> Inl err | Inr v \<Rightarrow> k v)"

text \<open>\<^verbatim>\<open>x / y\<close>\<close>

definition py_div :: "real \<Rightarrow> real \<Rightarrow> real result" where
  "py_div x y = (if y = 0 then Inl ZeroDivisionError else Inr (x / y))"

text \<open>\<^verbatim>\<open>x ** 0.5\<close>\<close>

definition py_pow_half :: "real \<Rightarrow> real result" where
  "py_pow_half x = (if x < 0 then Inl NegativeBasePower else Inr (sqrt x))"

text \<open>The number a call returned; used only where the call does return.\<close>

fun returned :: "real result \<Rightarrow> real" where
  "returned (Inr v) = v"
| "returned (Inl err) = 0"

subsection \<open>Data\<close>

text \<open>
  The attributes of a \<^verbatim>\<open>Fluid\<close> instance that the constructors read. The gas constant
  \<^verbatim>\<open>self.R\<close> is an attribute inherited from the parent class, whose module is not
  part of the sources at hand: it is a parameter \<open>R\<close> of every constructor below.
\<close>

record fluid =
  p_crit :: real
  T_crit :: real
  acentric :: real

text \<open>
  The positional arguments of the call \<^verbatim>\<open>super(...).__init__(b1, 0., b1, 0., fluid)\<close>,
  in the order of the call. The parent constructor itself belongs to another module;
  the model of a constructor ends with this call and records its arguments.
\<close>

record CubicEOS_args =
  arg1 :: real
  arg2 :: real
  arg3 :: real
  arg4 :: real
  arg_fluid :: fluid

text \<open>The attributes each constructor sets on \<^verbatim>\<open>self\<close>, and the parent call it makes.\<close>

record RedlichKwong =
  rk_p_crit :: real
  rk_T_crit :: real
  rk_a0 :: real
  rk_super :: CubicEOS_args

record SoaveRedlichKwong =
  srk_acentric :: real
  srk_p_crit :: real
  srk_T_crit :: real
  srk_a0 :: real
  srk_kappa :: real
  srk_super :: CubicEOS_args

record PengRobinson =
  pr_acentric :: real
  pr_p_crit :: real
  pr_T_crit :: real
  pr_a0 :: real
  pr_kappa :: real
  pr_super :: CubicEOS_args

subsection \<open>Redlich-Kwong\<close>

definition RedlichKwong_init :: "real \<Rightarrow> fluid \<Rightarrow> RedlichKwong result" where
  "RedlichKwong_init R fl =
     (let pc = p_crit fl; Tc = T_crit fl in
      and_then (py_div (0.42748 * R\<^sup>2 * Tc\<^sup>2) pc) (\<lambda>a0.
      and_then (py_div (0.08664 * R * Tc) pc) (\<lambda>b1.
      Inr \<lparr>rk_p_crit = pc, rk_T_crit = Tc, rk_a0 = a0,
           rk_super = \<lparr>arg1 = b1, arg2 = 0, arg3 = b1, arg4 = 0, arg_fluid = fl\<rparr>\<rparr>)))"

definition RedlichKwong_get_a :: "RedlichKwong \<Rightarrow> real \<Rightarrow> real result" where
  "RedlichKwong_get_a self T =
     and_then (py_div T (rk_T_crit self)) (\<lambda>Tr.
     and_then (py_pow_half Tr) (\<lambda>s.
     py_div (rk_a0 self) s))"

definition RedlichKwong_get_diff_a_T :: "RedlichKwong \<Rightarrow> real \<Rightarrow> real result" where
  "RedlichKwong_get_diff_a_T self T =
     and_then (py_div T (rk_T_crit self)) (\<lambda>Tr.
     and_then (py_div (- 0.5 * rk_a0 self) T) (\<lambda>q.
     and_then (py_pow_half Tr) (\<lambda>s.
     py_div q s)))"

definition RedlichKwong_get_double_diff_a_T :: "RedlichKwong \<Rightarrow> real \<Rightarrow> real result" where
  "RedlichKwong_get_double_diff_a_T self T =
     and_then (py_div T (rk_T_crit self)) (\<lambda>Tr.
     and_then (py_div (0.75 * rk_a0 self) (T\<^sup>2)) (\<lambda>q.
     and_then (py_pow_half Tr) (\<lambda>s.
     py_div q s)))"

subsection \<open>Soave-Redlich-Kwong\<close>

definition SoaveRedlichKwong_init :: "real \<Rightarrow> fluid \<Rightarrow> SoaveRedlichKwong result" where
  "SoaveRedlichKwong_init R fl =
     (let w = acentric fl; pc = p_crit fl; Tc = T_crit fl in
      and_then (py_div (0.42748 * R\<^sup>2 * Tc\<^sup>2) pc) (\<lambda>a0.
      and_then (py_div (0.08664 * R * Tc) pc) (\<lambda>b1.
      let kappa = 0.48508 + 1.55171 * w - 0.15613 * w\<^sup>2 in
      Inr \<lparr>srk_acentric = w, srk_p_crit = pc, srk_T_crit = Tc, srk_a0 = a0, srk_kappa = kappa,
           srk_super = \<lparr>arg1 = b1, arg2 = 0, arg3 = b1, arg4 = 0, arg_fluid = fl\<rparr>\<rparr>)))"

definition SoaveRedlichKwong_get_a :: "SoaveRedlichKwong \<Rightarrow> real \<Rightarrow> real result" where
  "SoaveRedlichKwong_get_a self T =
     and_then (py_div T (srk_T_crit self)) (\<lambda>Tr.
     and_then (py_pow_half Tr) (\<lambda>s.
     let alpha = (1 + srk_kappa self * (1 - s))\<^sup>2 in
     Inr (alpha * srk_a0 self)))"

definition SoaveRedlichKwong_get_diff_a_T :: "SoaveRedlichKwong \<Rightarrow> real \<Rightarrow> real result" where
  "SoaveRedlichKwong_get_diff_a_T self T =
     and_then (py_div T (srk_T_crit self)) (\<lambda>Tr.
     and_then (py_pow_half Tr) (\<lambda>s.
     let alpha0 = 1 + srk_kappa self * (1 - s) in
     and_then (py_div (srk_a0 self * srk_kappa self) T) (\<lambda>q.
     and_then (py_pow_half Tr) (\<lambda>s'.
     Inr (- q * s' * alpha0)))))"

definition SoaveRedlichKwong_get_double_diff_a_T :: "SoaveRedlichKwong \<Rightarrow> real \<Rightarrow> real result" where
  "SoaveRedlichKwong_get_double_diff_a_T self T =
     and_then (py_div T (srk_T_crit self)) (\<lambda>Tr.
     and_then (py_pow_half Tr) (\<lambda>s.
     let alpha0 = 1 + srk_kappa self * (1 - s) in
     and_then (py_div (0.5 * srk_a0 self * (srk_kappa self)\<^sup>2) (T\<^sup>2)) (\<lambda>q1.
     and_then (py_div (0.5 * srk_a0 self * srk_kappa self) (T\<^sup>2)) (\<lambda>q2.
     and_then (py_pow_half Tr) (\<lambda>s'.
     Inr (q1 * Tr + q2 * s' * alpha0))))))"

subsection \<open>Peng-Robinson\<close>

definition PengRobinson_init :: "real \<Rightarrow> fluid \<Rightarrow> PengRobinson result" where
  "PengRobinson_init R fl =
     (let w = acentric fl; pc = p_crit fl; Tc = T_crit fl in
      and_then (py_div (0.45724 * R\<^sup>2 * Tc\<^sup>2) pc) (\<lambda>a0.
      and_then (py_div (0.07780 * R * Tc) pc) (\<lambda>b1.
      let kappa = 0.37464 + 1.54226 * w - 0.26992 * w\<^sup>2 in
      Inr \<lparr>pr_acentric = w, pr_p_crit = pc, pr_T_crit = Tc, pr_a0 = a0, pr_kappa = kappa,
           pr_super = \<lparr>arg1 = b1, arg2 = 0, arg3 = 2 * b1, arg4 = - (b1\<^sup>2), arg_fluid = fl\<rparr>\<rparr>)))"

definition PengRobinson_get_a :: "PengRobinson \<Rightarrow> real \<Rightarrow> real result" where
  "PengRobinson_get_a self T =
     and_then (py_div T (pr_T_crit self)) (\<lambda>Tr.
     and_then (py_pow_half Tr) (\<lambda>s.
     let alpha = (1 + pr_kappa self * (1 - s))\<^sup>2 in
     Inr (alpha * pr_a0 self)))"

definition PengRobinson_get_diff_a_T :: "PengRobinson \<Rightarrow> real \<Rightarrow> real result" where
  "PengRobinson_get_diff_a_T self T =
     and_then (py_div T (pr_T_crit self)) (\<lambda>Tr.
     and_then (py_pow_half Tr) (\<lambda>s.
     let alpha0 = 1 + pr_kappa self * (1 - s) in
     and_then (py_div (pr_a0 self * pr_kappa self) T) (\<lambda>q.
     and_then (py_pow_half Tr) (\<lambda>s'.
     Inr (- q * s' * alpha0)))))"

definition PengRobinson_get_double_diff_a_T :: "PengRobinson \<Rightarrow> real \<Rightarrow> real result" where
  "PengRobinson_get_double_diff_a_T self T =
     and_then (py_div T (pr_T_crit self)) (\<lambda>Tr.
     and_then (py_pow_half Tr) (\<lambda>s.
     let alpha0 = 1 + pr_kappa self * (1 - s) in
     and_then (py_div (0.5 * pr_a0 self * (pr_kappa self)\<^sup>2) (T\<^sup>2)) (\<lambda>q1.
     and_then (py_div (0.5 * pr_a0 self * pr_kappa self) (T\<^sup>2)) (\<lambda>q2.
     and_then (py_pow_half Tr) (\<lambda>s'.
     Inr (q1 * Tr + q2 * s' * alpha0))))))"

subsection \<open>A fluid for the examples\<close>

text \<open>
  The methane-like fluid of the specification's scenarios: \<open>p_crit = 4.6\<cdot>10\<^sup>6 Pa\<close>,
  \<open>T_crit = 190.6 K\<close>, acentric factor \<open>0.011\<close>; the examples use it with \<open>R = 8.314\<close>.
\<close>

definition methane_like :: fluid where
  "methane_like = \<lparr>p_crit = 4600000, T_crit = 190.6, acentric = 0.011\<rparr>"

subsection \<open>Properties stated about the methods\<close>

text \<open>
  \<open>returns_derivative f f' T\<close>: at the temperature \<open>T\<close> both methods return, and the
  number returned by \<open>f'\<close> is the derivative at \<open>T\<close> of the real function computed
  by \<open>f\<close>.
\<close>

definition returns_derivative :: "(real \<Rightarrow> real result) \<Rightarrow> (real \<Rightarrow> real result) \<Rightarrow> real \<Rightarrow> bool" where
  "returns_derivative f f' T =
     (\<exists>v d. f T = Inr v \<and> f' T = Inr d \<and> ((\<lambda>t. returned (f t)) has_real_derivative d) (at T))"

section \<open>Evaluation on the domain of the methods\<close>

lemma and_then_Inr: "and_then (Inr v) k = k v"
  by (simp add: and_then_def)

lemma and_then_Inl: "and_then (Inl err) k = Inl err"
  by (simp add: and_then_def)

lemma py_div_nonzero: "y \<noteq> 0 \<Longrightarrow> py_div x y = Inr (x / y)"
  by (simp add: py_div_def)

lemma py_div_zero: "py_div x 0 = Inl ZeroDivisionError"
  by (simp add: py_div_def)

lemma py_pow_half_nonneg: "0 \<le> x \<Longrightarrow> py_pow_half x = Inr (sqrt x)"
  by (simp add: py_pow_half_def)

lemmas run = and_then_Inr and_then_Inl py_div_nonzero py_div_zero py_pow_half_nonneg

lemma RedlichKwong_init_nonzero:
  assumes "p_crit fl \<noteq> 0"
  shows "RedlichKwong_init R fl =
           Inr \<lparr>rk_p_crit = p_crit fl, rk_T_crit = T_crit fl,
                rk_a0 = 0.42748 * R\<^sup>2 * (T_crit fl)\<^sup>2 / p_crit fl,
                rk_super = \<lparr>arg1 = 0.08664 * R * T_crit fl / p_crit fl, arg2 = 0,
                            arg3 = 0.08664 * R * T_crit fl / p_crit fl, arg4 = 0,
                            arg_fluid = fl\<rparr>\<rparr>"
  using assms by (simp add: RedlichKwong_init_def Let_def run)

lemma SoaveRedlichKwong_init_nonzero:
  assumes "p_crit fl \<noteq> 0"
  shows "SoaveRedlichKwong_init R fl =
           Inr \<lparr>srk_acentric = acentric fl, srk_p_crit = p_crit fl, srk_T_crit = T_crit fl,
                srk_a0 = 0.42748 * R\<^sup>2 * (T_crit fl)\<^sup>2 / p_crit fl,
                srk_kappa = 0.48508 + 1.55171 * acentric fl - 0.15613 * (acentric fl)\<^sup>2,
                srk_super = \<lparr>arg1 = 0.08664 * R * T_crit fl / p_crit fl, arg2 = 0,
                             arg3 = 0.08664 * R * T_crit fl / p_crit fl, arg4 = 0,
                             arg_fluid = fl\<rparr>\<rparr>"
  using assms by (simp add: SoaveRedlichKwong_init_def Let_def run)

lemma PengRobinson_init_nonzero:
  assumes "p_crit fl \<noteq> 0"
  shows "PengRobinson_init R fl =
           Inr \<lparr>pr_acentric = acentric fl, pr_p_crit = p_crit fl, pr_T_crit = T_crit fl,
                pr_a0 = 0.45724 * R\<^sup>2 * (T_crit fl)\<^sup>2 / p_crit fl,
                pr_kappa = 0.37464 + 1.54226 * acentric fl - 0.26992 * (acentric fl)\<^sup>2,
                pr_super = \<lparr>arg1 = 0.07780 * R * T_crit fl / p_crit fl, arg2 = 0,
                            arg3 = 2 * (0.07780 * R * T_crit fl / p_crit fl),
                            arg4 = - ((0.07780 * R * T_crit fl / p_crit fl)\<^sup>2),
                            arg_fluid = fl\<rparr>\<rparr>"
  using assms by (simp add: PengRobinson_init_def Let_def run)

lemma init_zero:
  assumes "p_crit fl = 0"
  shows "RedlichKwong_init R fl = Inl ZeroDivisionError"
    and "SoaveRedlichKwong_init R fl = Inl ZeroDivisionError"
    and "PengRobinson_init R fl = Inl ZeroDivisionError"
  using assms
  by (simp_all add: RedlichKwong_init_def SoaveRedlichKwong_init_def PengRobinson_init_def
      Let_def run)

lemma RedlichKwong_get_a_domain:
  assumes "0 < rk_T_crit self" "0 < T"
  shows "RedlichKwong_get_a self T = Inr (rk_a0 self / sqrt (T / rk_T_crit self))"
  using assms by (simp add: RedlichKwong_get_a_def run)

lemma RedlichKwong_get_diff_a_T_domain:
  assumes "0 < rk_T_crit self" "0 < T"
  shows "RedlichKwong_get_diff_a_T self T =
           Inr (- 0.5 * rk_a0 self / T / sqrt (T / rk_T_crit self))"
  using assms by (simp add: RedlichKwong_get_diff_a_T_def run)

lemma RedlichKwong_get_double_diff_a_T_domain:
  assumes "0 < rk_T_crit self" "0 < T"
  shows "RedlichKwong_get_double_diff_a_T self T =
           Inr (0.75 * rk_a0 self / T\<^sup>2 / sqrt (T / rk_T_crit self))"
  using assms by (simp add: RedlichKwong_get_double_diff_a_T_def run)

lemma SoaveRedlichKwong_get_a_domain:
  assumes "0 < srk_T_crit self" "0 < T"
  shows "SoaveRedlichKwong_get_a self T =
           Inr ((1 + srk_kappa self * (1 - sqrt (T / srk_T_crit self)))\<^sup>2 * srk_a0 self)"
  using assms by (simp add: SoaveRedlichKwong_get_a_def Let_def run)

lemma SoaveRedlichKwong_get_diff_a_T_domain:
  assumes "0 < srk_T_crit self" "0 < T"
  shows "SoaveRedlichKwong_get_diff_a_T self T =
           Inr (- (srk_a0 self * srk_kappa self / T) * sqrt (T / srk_T_crit self)
                * (1 + srk_kappa self * (1 - sqrt (T / srk_T_crit self))))"
  using assms by (simp add: SoaveRedlichKwong_get_diff_a_T_def Let_def run)

lemma SoaveRedlichKwong_get_double_diff_a_T_domain:
  assumes "0 < srk_T_crit self" "0 < T"
  shows "SoaveRedlichKwong_get_double_diff_a_T self T =
           Inr (0.5 * srk_a0 self * (srk_kappa self)\<^sup>2 / T\<^sup>2 * (T / srk_T_crit self)
                + 0.5 * srk_a0 self * srk_kappa self / T\<^sup>2 * sqrt (T / srk_T_crit self)
                  * (1 + srk_kappa self * (1 - sqrt (T / srk_T_crit self))))"
  using assms by (simp add: SoaveRedlichKwong_get_double_diff_a_T_def Let_def run)

lemma PengRobinson_get_a_domain:
  assumes "0 < pr_T_crit self" "0 < T"
  shows "PengRobinson_get_a self T =
           Inr ((1 + pr_kappa self * (1 - sqrt (T / pr_T_crit self)))\<^sup>2 * pr_a0 self)"
  using assms by (simp add: PengRobinson_get_a_def Let_def run)

lemma PengRobinson_get_diff_a_T_domain:
  assumes "0 < pr_T_crit self" "0 < T"
  shows "PengRobinson_get_diff_a_T self T =
           Inr (- (pr_a0 self * pr_kappa self / T) * sqrt (T / pr_T_crit self)
                * (1 + pr_kappa self * (1 - sqrt (T / pr_T_crit self))))"
  using assms by (simp add: PengRobinson_get_diff_a_T_def Let_def run)

lemma PengRobinson_get_double_diff_a_T_domain:
  assumes "0 < pr_T_crit self" "0 < T"
  shows "PengRobinson_get_double_diff_a_T self T =
           Inr (0.5 * pr_a0 self * (pr_kappa self)\<^sup>2 / T\<^sup>2 * (T / pr_T_crit self)
                + 0.5 * pr_a0 self * pr_kappa self / T\<^sup>2 * sqrt (T / pr_T_crit self)
                  * (1 + pr_kappa self * (1 - sqrt (T / pr_T_crit self))))"
  using assms by (simp add: PengRobinson_get_double_diff_a_T_def Let_def run)


section \<open>Derivatives of the closed forms\<close>

lemma sqrt_ratio_deriv:
  fixes T c :: real
  assumes "0 < c" "0 < T"
  shows "((\<lambda>t. sqrt (t / c)) has_real_derivative sqrt (T / c) / (2 * T)) (at T)"
proof -
  have pos: "0 < T / c" using assms by simp
  have "((\<lambda>t. sqrt (t / c)) has_real_derivative (1 / c) * (inverse (sqrt (T / c)) / 2)) (at T)"
    using pos by (auto intro!: derivative_eq_intros)
  moreover have "(1 / c) * (inverse (sqrt (T / c)) / 2) = sqrt (T / c) / (2 * T)"
  proof -
    have "sqrt (T / c) * sqrt (T / c) = T / c" using assms by simp
    moreover have "sqrt (T / c) \<noteq> 0" using assms by simp
    ultimately show ?thesis using assms
      by (simp add: field_simps)
  qed
  ultimately show ?thesis by simp
qed

lemma inverse_sqrt_form_deriv:
  fixes T c a0 :: real
  assumes "0 < c" "0 < T"
  shows "((\<lambda>t. a0 / sqrt (t / c)) has_real_derivative (- 0.5 * a0 / T / sqrt (T / c))) (at T)"
proof -
  define s where "s = (\<lambda>t. sqrt (t / c))"
  have ds: "(s has_real_derivative s T / (2 * T)) (at T)"
    unfolding s_def by (rule sqrt_ratio_deriv [OF assms])
  have sp: "s T \<noteq> 0" using assms by (simp add: s_def)
  have "((\<lambda>t. a0 / s t) has_real_derivative (- 0.5 * a0 / T / s T)) (at T)"
    using sp assms by (auto intro!: derivative_eq_intros ds simp: field_simps)
  then show ?thesis by (simp add: s_def)
qed

lemma inverse_sqrt_form_deriv2:
  fixes T c a0 :: real
  assumes "0 < c" "0 < T"
  shows "((\<lambda>t. - 0.5 * a0 / t / sqrt (t / c)) has_real_derivative
          (0.75 * a0 / T\<^sup>2 / sqrt (T / c))) (at T)"
proof -
  define s where "s = (\<lambda>t. sqrt (t / c))"
  have ds: "(s has_real_derivative s T / (2 * T)) (at T)"
    unfolding s_def by (rule sqrt_ratio_deriv [OF assms])
  have sp: "s T \<noteq> 0" using assms by (simp add: s_def)
  have "((\<lambda>t. - 0.5 * a0 / t / s t) has_real_derivative (0.75 * a0 / T\<^sup>2 / s T)) (at T)"
    using sp assms by (auto intro!: derivative_eq_intros ds simp: field_simps power2_eq_square)
  then show ?thesis by (simp add: s_def)
qed

lemma soave_form_deriv:
  fixes T c a0 k :: real
  assumes "0 < c" "0 < T"
  shows "((\<lambda>t. (1 + k * (1 - sqrt (t / c)))\<^sup>2 * a0) has_real_derivative
          (- (a0 * k / T) * sqrt (T / c) * (1 + k * (1 - sqrt (T / c))))) (at T)"
proof -
  define s where "s = (\<lambda>t. sqrt (t / c))"
  have ds: "(s has_real_derivative s T / (2 * T)) (at T)"
    unfolding s_def by (rule sqrt_ratio_deriv [OF assms])
  have "((\<lambda>t. (1 + k * (1 - s t))\<^sup>2 * a0) has_real_derivative
          (- (a0 * k / T) * s T * (1 + k * (1 - s T)))) (at T)"
    using assms by (auto intro!: derivative_eq_intros ds simp: field_simps power2_eq_square)
  then show ?thesis by (simp add: s_def)
qed

lemma soave_form_deriv2:
  fixes T c a0 k :: real
  assumes "0 < c" "0 < T"
  shows "((\<lambda>t. - (a0 * k / t) * sqrt (t / c) * (1 + k * (1 - sqrt (t / c)))) has_real_derivative
          (0.5 * a0 * k\<^sup>2 / T\<^sup>2 * (T / c)
           + 0.5 * a0 * k / T\<^sup>2 * sqrt (T / c) * (1 + k * (1 - sqrt (T / c))))) (at T)"
proof -
  define s where "s = (\<lambda>t. sqrt (t / c))"
  have ds: "(s has_real_derivative s T / (2 * T)) (at T)"
    unfolding s_def by (rule sqrt_ratio_deriv [OF assms])
  have sq: "T / c = s T * s T" using assms by (simp add: s_def)
  have "((\<lambda>t. - (a0 * k / t) * s t * (1 + k * (1 - s t))) has_real_derivative
          (0.5 * a0 * k\<^sup>2 / T\<^sup>2 * (s T * s T)
           + 0.5 * a0 * k / T\<^sup>2 * s T * (1 + k * (1 - s T)))) (at T)"
    using assms by (auto intro!: derivative_eq_intros ds simp: field_simps power2_eq_square)
  then show ?thesis unfolding sq [symmetric] by (simp add: s_def)
qed

text \<open>
  A method that returns \<open>g t\<close> at every positive temperature computes, around a positive
  temperature, the real function \<open>g\<close>.
\<close>

lemma returns_derivativeI:
  assumes f: "\<And>t. 0 < t \<Longrightarrow> f t = Inr (g t)"
    and f': "\<And>t. 0 < t \<Longrightarrow> f' t = Inr (g' t)"
    and T: "0 < T"
    and g: "(g has_real_derivative g' T) (at T)"
  shows "returns_derivative f f' T"
proof -
  have "\<forall>\<^sub>F t in nhds T. t \<in> {0<..}"
    using T by (intro eventually_nhds_in_open) simp_all
  then have ev: "\<forall>\<^sub>F t in nhds T. returned (f t) = g t"
    by (rule eventually_mono) (simp add: f)
  have "((\<lambda>t. returned (f t)) has_real_derivative g' T) (at T)"
    using DERIV_cong_ev [OF refl ev refl] g by simp
  then show ?thesis
    unfolding returns_derivative_def using f [OF T] f' [OF T] by blast
qed

lemma RedlichKwong_derivatives:
  assumes "0 < rk_T_crit self" "0 < T"
  shows "returns_derivative (RedlichKwong_get_a self) (RedlichKwong_get_diff_a_T self) T"
    and "returns_derivative (RedlichKwong_get_diff_a_T self) (RedlichKwong_get_double_diff_a_T self) T"
proof -
  show "returns_derivative (RedlichKwong_get_a self) (RedlichKwong_get_diff_a_T self) T"
  proof (rule returns_derivativeI
      [where g = "\<lambda>t. rk_a0 self / sqrt (t / rk_T_crit self)"
         and g' = "\<lambda>t. - 0.5 * rk_a0 self / t / sqrt (t / rk_T_crit self)"])
    show "((\<lambda>t. rk_a0 self / sqrt (t / rk_T_crit self)) has_real_derivative
           (\<lambda>t. - 0.5 * rk_a0 self / t / sqrt (t / rk_T_crit self)) T) (at T)"
      by (rule inverse_sqrt_form_deriv [OF assms])
  qed (simp_all add: assms RedlichKwong_get_a_domain RedlichKwong_get_diff_a_T_domain)
  show "returns_derivative (RedlichKwong_get_diff_a_T self) (RedlichKwong_get_double_diff_a_T self) T"
  proof (rule returns_derivativeI
      [where g = "\<lambda>t. - 0.5 * rk_a0 self / t / sqrt (t / rk_T_crit self)"
         and g' = "\<lambda>t. 0.75 * rk_a0 self / t\<^sup>2 / sqrt (t / rk_T_crit self)"])
    show "((\<lambda>t. - 0.5 * rk_a0 self / t / sqrt (t / rk_T_crit self)) has_real_derivative
           (\<lambda>t. 0.75 * rk_a0 self / t\<^sup>2 / sqrt (t / rk_T_crit self)) T) (at T)"
      by (rule inverse_sqrt_form_deriv2 [OF assms])
  qed (simp_all add: assms RedlichKwong_get_diff_a_T_domain RedlichKwong_get_double_diff_a_T_domain)
qed

lemma SoaveRedlichKwong_derivatives:
  assumes "0 < srk_T_crit self" "0 < T"
  shows "returns_derivative (SoaveRedlichKwong_get_a self) (SoaveRedlichKwong_get_diff_a_T self) T"
    and "returns_derivative (SoaveRedlichKwong_get_diff_a_T self) (SoaveRedlichKwong_get_double_diff_a_T self) T"
proof -
  show "returns_derivative (SoaveRedlichKwong_get_a self) (SoaveRedlichKwong_get_diff_a_T self) T"
  proof (rule returns_derivativeI
      [where g = "\<lambda>t. (1 + srk_kappa self * (1 - sqrt (t / srk_T_crit self)))\<^sup>2 * srk_a0 self"
         and g' = "\<lambda>t. - (srk_a0 self * srk_kappa self / t) * sqrt (t / srk_T_crit self) * (1 + srk_kappa self * (1 - sqrt (t / srk_T_crit self)))"])
    show "((\<lambda>t. (1 + srk_kappa self * (1 - sqrt (t / srk_T_crit self)))\<^sup>2 * srk_a0 self) has_real_derivative
           (\<lambda>t. - (srk_a0 self * srk_kappa self / t) * sqrt (t / srk_T_crit self) * (1 + srk_kappa self * (1 - sqrt (t / srk_T_crit self)))) T) (at T)"
      by (rule soave_form_deriv [OF assms])
  qed (simp_all add: assms SoaveRedlichKwong_get_a_domain SoaveRedlichKwong_get_diff_a_T_domain)
  show "returns_derivative (SoaveRedlichKwong_get_diff_a_T self) (SoaveRedlichKwong_get_double_diff_a_T self) T"
  proof (rule returns_derivativeI
      [where g = "\<lambda>t. - (srk_a0 self * srk_kappa self / t) * sqrt (t / srk_T_crit self) * (1 + srk_kappa self * (1 - sqrt (t / srk_T_crit self)))"
         and g' = "\<lambda>t. 0.5 * srk_a0 self * (srk_kappa self)\<^sup>2 / t\<^sup>2 * (t / srk_T_crit self)
              + 0.5 * srk_a0 self * srk_kappa self / t\<^sup>2 * sqrt (t / srk_T_crit self) * (1 + srk_kappa self * (1 - sqrt (t / srk_T_crit self)))"])
    show "((\<lambda>t. - (srk_a0 self * srk_kappa self / t) * sqrt (t / srk_T_crit self) * (1 + srk_kappa self * (1 - sqrt (t / srk_T_crit self)))) has_real_derivative
           (\<lambda>t. 0.5 * srk_a0 self * (srk_kappa self)\<^sup>2 / t\<^sup>2 * (t / srk_T_crit self)
              + 0.5 * srk_a0 self * srk_kappa self / t\<^sup>2 * sqrt (t / srk_T_crit self) * (1 + srk_kappa self * (1 - sqrt (t / srk_T_crit self)))) T) (at T)"
      by (rule soave_form_deriv2 [OF assms])
  qed (simp_all add: assms SoaveRedlichKwong_get_diff_a_T_domain SoaveRedlichKwong_get_double_diff_a_T_domain)
qed

lemma PengRobinson_derivatives:
  assumes "0 < pr_T_crit self" "0 < T"
  shows "returns_derivative (PengRobinson_get_a self) (PengRobinson_get_diff_a_T self) T"
    and "returns_derivative (PengRobinson_get_diff_a_T self) (PengRobinson_get_double_diff_a_T self) T"
proof -
  show "returns_derivative (PengRobinson_get_a self) (PengRobinson_get_diff_a_T self) T"
  proof (rule returns_derivativeI
      [where g = "\<lambda>t. (1 + pr_kappa self * (1 - sqrt (t / pr_T_crit self)))\<^sup>2 * pr_a0 self"
         and g' = "\<lambda>t. - (pr_a0 self * pr_kappa self / t) * sqrt (t / pr_T_crit self) * (1 + pr_kappa self * (1 - sqrt (t / pr_T_crit self)))"])
    show "((\<lambda>t. (1 + pr_kappa self * (1 - sqrt (t / pr_T_crit self)))\<^sup>2 * pr_a0 self) has_real_derivative
           (\<lambda>t. - (pr_a0 self * pr_kappa self / t) * sqrt (t / pr_T_crit self) * (1 + pr_kappa self * (1 - sqrt (t / pr_T_crit self)))) T) (at T)"
      by (rule soave_form_deriv [OF assms])
  qed (simp_all add: assms PengRobinson_get_a_domain PengRobinson_get_diff_a_T_domain)
  show "returns_derivative (PengRobinson_get_diff_a_T self) (PengRobinson_get_double_diff_a_T self) T"
  proof (rule returns_derivativeI
      [where g = "\<lambda>t. - (pr_a0 self * pr_kappa self / t) * sqrt (t / pr_T_crit self) * (1 + pr_kappa self * (1 - sqrt (t / pr_T_crit self)))"
         and g' = "\<lambda>t. 0.5 * pr_a0 self * (pr_kappa self)\<^sup>2 / t\<^sup>2 * (t / pr_T_crit self)
              + 0.5 * pr_a0 self * pr_kappa self / t\<^sup>2 * sqrt (t / pr_T_crit self) * (1 + pr_kappa self * (1 - sqrt (t / pr_T_crit self)))"])
    show "((\<lambda>t. - (pr_a0 self * pr_kappa self / t) * sqrt (t / pr_T_crit self) * (1 + pr_kappa self * (1 - sqrt (t / pr_T_crit self)))) has_real_derivative
           (\<lambda>t. 0.5 * pr_a0 self * (pr_kappa self)\<^sup>2 / t\<^sup>2 * (t / pr_T_crit self)
              + 0.5 * pr_a0 self * pr_kappa self / t\<^sup>2 * sqrt (t / pr_T_crit self) * (1 + pr_kappa self * (1 - sqrt (t / pr_T_crit self)))) T) (at T)"
      by (rule soave_form_deriv2 [OF assms])
  qed (simp_all add: assms PengRobinson_get_diff_a_T_domain PengRobinson_get_double_diff_a_T_domain)
qed


section \<open>The claims\<close>

text \<open>
  C1. For every fluid with \<open>p_crit > 0\<close> and \<open>T_crit > 0\<close> and every \<open>T > 0\<close>, the
  method \<^verbatim>\<open>get_a\<close> of a Soave-Redlich-Kwong instance and of a Peng-Robinson instance
  built from the fluid returns \<open>\<alpha>0\<^sup>2 \<cdot> a0\<close> with \<open>\<alpha>0 = 1 + \<kappa> (1 - \sqrt (T / T_crit))\<close>, where
  \<open>a0 = 0.42748 R\<^sup>2 T_crit\<^sup>2 / p_crit\<close> and \<open>\<kappa> = 0.48508 + 1.55171 \<omega> - 0.15613 \<omega>\<^sup>2\<close> for
  Soave-Redlich-Kwong, and \<open>a0 = 0.45724 R\<^sup>2 T_crit\<^sup>2 / p_crit\<close> and
  \<open>\<kappa> = 0.37464 + 1.54226 \<omega> - 0.26992 \<omega>\<^sup>2\<close> for Peng-Robinson (\<open>\<omega>\<close> the acentric factor).
\<close>

theorem soave_peng_get_a_formula:
  assumes "0 < p_crit fl" "0 < T_crit fl" "0 < T"
  shows "(\<exists>srk pr.
       SoaveRedlichKwong_init R fl = Inr srk \<and> PengRobinson_init R fl = Inr pr \<and>
       SoaveRedlichKwong_get_a srk T =
         Inr ((1 + (0.48508 + 1.55171 * acentric fl - 0.15613 * (acentric fl)\<^sup>2) * (1 - sqrt (T / T_crit fl)))\<^sup>2
              * (0.42748 * R\<^sup>2 * (T_crit fl)\<^sup>2 / p_crit fl)) \<and>
       PengRobinson_get_a pr T =
         Inr ((1 + (0.37464 + 1.54226 * acentric fl - 0.26992 * (acentric fl)\<^sup>2) * (1 - sqrt (T / T_crit fl)))\<^sup>2
              * (0.45724 * R\<^sup>2 * (T_crit fl)\<^sup>2 / p_crit fl)))"
proof -
  have nz: "p_crit fl \<noteq> 0" using assms by simp
  show ?thesis
    unfolding SoaveRedlichKwong_init_nonzero [OF nz] PengRobinson_init_nonzero [OF nz]
    using assms by (simp add: SoaveRedlichKwong_get_a_domain PengRobinson_get_a_domain)
qed

theorem soave_peng_get_a_formula_witness:
  "0 < p_crit methane_like \<and> 0 < T_crit methane_like \<and> (0::real) < 250 \<and>
   (\<exists>srk pr.
       SoaveRedlichKwong_init 8.314 methane_like = Inr srk \<and> PengRobinson_init 8.314 methane_like = Inr pr \<and>
       SoaveRedlichKwong_get_a srk 250 =
         Inr ((1 + (0.48508 + 1.55171 * acentric methane_like - 0.15613 * (acentric methane_like)\<^sup>2) * (1 - sqrt (250 / T_crit methane_like)))\<^sup>2
              * (0.42748 * 8.314\<^sup>2 * (T_crit methane_like)\<^sup>2 / p_crit methane_like)) \<and>
       PengRobinson_get_a pr 250 =
         Inr ((1 + (0.37464 + 1.54226 * acentric methane_like - 0.26992 * (acentric methane_like)\<^sup>2) * (1 - sqrt (250 / T_crit methane_like)))\<^sup>2
              * (0.45724 * 8.314\<^sup>2 * (T_crit methane_like)\<^sup>2 / p_crit methane_like)))"
proof -
  have h1: "0 < p_crit methane_like" by (simp add: methane_like_def)
  have h2: "0 < T_crit methane_like" by (simp add: methane_like_def)
  have h3: "(0::real) < 250" by simp
  show ?thesis
    by (intro conjI h1 h2 h3 soave_peng_get_a_formula [OF h1 h2 h3])
qed

text \<open>
  C2. For every fluid with \<open>p_crit > 0\<close> and \<open>T_crit > 0\<close> and every \<open>T > 0\<close>, with
  \<open>Tr = T / T_crit\<close> and \<open>a0 = 0.42748 R\<^sup>2 T_crit\<^sup>2 / p_crit\<close>, the Redlich-Kwong
  instance built from the fluid returns \<open>a0 \<cdot> Tr powr (-0.5)\<close> from \<^verbatim>\<open>get_a\<close>,
  \<open>-0.5 \<cdot> a0 / T \<cdot> Tr powr (-0.5)\<close> from \<^verbatim>\<open>get_diff_a_T\<close> and
  \<open>0.75 \<cdot> a0 / T\<^sup>2 \<cdot> Tr powr (-0.5)\<close> from \<^verbatim>\<open>get_double_diff_a_T\<close>.
\<close>

theorem redlich_kwong_formulas:
  assumes "0 < p_crit fl" "0 < T_crit fl" "0 < T"
  shows "(\<exists>rk.
       RedlichKwong_init R fl = Inr rk \<and>
       RedlichKwong_get_a rk T =
         Inr ((0.42748 * R\<^sup>2 * (T_crit fl)\<^sup>2 / p_crit fl) * (T / T_crit fl) powr (- 0.5)) \<and>
       RedlichKwong_get_diff_a_T rk T =
         Inr (- 0.5 * (0.42748 * R\<^sup>2 * (T_crit fl)\<^sup>2 / p_crit fl) / T * (T / T_crit fl) powr (- 0.5)) \<and>
       RedlichKwong_get_double_diff_a_T rk T =
         Inr (0.75 * (0.42748 * R\<^sup>2 * (T_crit fl)\<^sup>2 / p_crit fl) / T\<^sup>2 * (T / T_crit fl) powr (- 0.5)))"
proof -
  have nz: "p_crit fl \<noteq> 0" using assms by simp
  have tr: "0 < T / T_crit fl" using assms by simp
  have pw: "(T / T_crit fl) powr (- 0.5) = 1 / sqrt (T / T_crit fl)"
    using tr by (simp add: powr_minus powr_half_sqrt inverse_eq_divide)
  show ?thesis
    unfolding RedlichKwong_init_nonzero [OF nz] pw
    using assms
    by (simp add: RedlichKwong_get_a_domain RedlichKwong_get_diff_a_T_domain
        RedlichKwong_get_double_diff_a_T_domain)
qed

theorem redlich_kwong_formulas_witness:
  "0 < p_crit methane_like \<and> 0 < T_crit methane_like \<and> (0::real) < 250 \<and>
   (\<exists>rk.
       RedlichKwong_init 8.314 methane_like = Inr rk \<and>
       RedlichKwong_get_a rk 250 =
         Inr ((0.42748 * 8.314\<^sup>2 * (T_crit methane_like)\<^sup>2 / p_crit methane_like) * (250 / T_crit methane_like) powr (- 0.5)) \<and>
       RedlichKwong_get_diff_a_T rk 250 =
         Inr (- 0.5 * (0.42748 * 8.314\<^sup>2 * (T_crit methane_like)\<^sup>2 / p_crit methane_like) / 250 * (250 / T_crit methane_like) powr (- 0.5)) \<and>
       RedlichKwong_get_double_diff_a_T rk 250 =
         Inr (0.75 * (0.42748 * 8.314\<^sup>2 * (T_crit methane_like)\<^sup>2 / p_crit methane_like) / 250\<^sup>2 * (250 / T_crit methane_like) powr (- 0.5)))"
proof -
  have h1: "0 < p_crit methane_like" by (simp add: methane_like_def)
  have h2: "0 < T_crit methane_like" by (simp add: methane_like_def)
  have h3: "(0::real) < 250" by simp
  show ?thesis
    by (intro conjI h1 h2 h3 redlich_kwong_formulas [OF h1 h2 h3])
qed

text \<open>
  C3. For each of the three families and every fluid with \<open>p_crit > 0\<close> and
  \<open>T_crit > 0\<close>: at every \<open>T > 0\<close> the value returned by \<^verbatim>\<open>get_diff_a_T\<close> is the
  derivative, over the reals, of the function computed by \<^verbatim>\<open>get_a\<close>, and the value
  returned by \<^verbatim>\<open>get_double_diff_a_T\<close> is the derivative of the function computed by
  \<^verbatim>\<open>get_diff_a_T\<close>, hence the second derivative of \<^verbatim>\<open>get_a\<close>.
\<close>

theorem diff_a_T_is_derivative:
  assumes "0 < p_crit fl" "0 < T_crit fl" "0 < T"
  shows "(\<exists>rk srk pr.
       RedlichKwong_init R fl = Inr rk \<and> SoaveRedlichKwong_init R fl = Inr srk \<and>
       PengRobinson_init R fl = Inr pr \<and>
       returns_derivative (RedlichKwong_get_a rk) (RedlichKwong_get_diff_a_T rk) T \<and>
       returns_derivative (RedlichKwong_get_diff_a_T rk) (RedlichKwong_get_double_diff_a_T rk) T \<and>
       returns_derivative (SoaveRedlichKwong_get_a srk) (SoaveRedlichKwong_get_diff_a_T srk) T \<and>
       returns_derivative (SoaveRedlichKwong_get_diff_a_T srk) (SoaveRedlichKwong_get_double_diff_a_T srk) T \<and>
       returns_derivative (PengRobinson_get_a pr) (PengRobinson_get_diff_a_T pr) T \<and>
       returns_derivative (PengRobinson_get_diff_a_T pr) (PengRobinson_get_double_diff_a_T pr) T)"
proof -
  have nz: "p_crit fl \<noteq> 0" using assms by simp
  show ?thesis
    unfolding RedlichKwong_init_nonzero [OF nz] SoaveRedlichKwong_init_nonzero [OF nz]
      PengRobinson_init_nonzero [OF nz]
    using assms
    by (simp add: RedlichKwong_derivatives SoaveRedlichKwong_derivatives
        PengRobinson_derivatives)
qed

theorem diff_a_T_is_derivative_witness:
  "0 < p_crit methane_like \<and> 0 < T_crit methane_like \<and> (0::real) < 250 \<and>
   (\<exists>rk srk pr.
       RedlichKwong_init 8.314 methane_like = Inr rk \<and> SoaveRedlichKwong_init 8.314 methane_like = Inr srk \<and>
       PengRobinson_init 8.314 methane_like = Inr pr \<and>
       returns_derivative (RedlichKwong_get_a rk) (RedlichKwong_get_diff_a_T rk) 250 \<and>
       returns_derivative (RedlichKwong_get_diff_a_T rk) (RedlichKwong_get_double_diff_a_T rk) 250 \<and>
       returns_derivative (SoaveRedlichKwong_get_a srk) (SoaveRedlichKwong_get_diff_a_T srk) 250 \<and>
       returns_derivative (SoaveRedlichKwong_get_diff_a_T srk) (SoaveRedlichKwong_get_double_diff_a_T srk) 250 \<and>
       returns_derivative (PengRobinson_get_a pr) (PengRobinson_get_diff_a_T pr) 250 \<and>
       returns_derivative (PengRobinson_get_diff_a_T pr) (PengRobinson_get_double_diff_a_T pr) 250)"
proof -
  have h1: "0 < p_crit methane_like" by (simp add: methane_like_def)
  have h2: "0 < T_crit methane_like" by (simp add: methane_like_def)
  have h3: "(0::real) < 250" by simp
  show ?thesis
    by (intro conjI h1 h2 h3 diff_a_T_is_derivative [OF h1 h2 h3])
qed

text \<open>
  C4. The specification's table is said to be passed to the constructor of the parent
  class for every fluid. A fluid with \<open>p_crit = 0\<close> is one for which it is not: each
  constructor divides by \<^verbatim>\<open>self.p_crit\<close> when it computes \<^verbatim>\<open>a0\<close>, before it computes
  \<^verbatim>\<open>b1\<close> and before the call \<^verbatim>\<open>super(...).__init__(...)\<close>, and raises
  \<^verbatim>\<open>ZeroDivisionError\<close>; no argument is passed.
\<close>

theorem constructors_pass_parameters_counterexample:
  "RedlichKwong_init 8.314 \<lparr>p_crit = 0, T_crit = 190.6, acentric = 0.011\<rparr> =
     Inl ZeroDivisionError \<and>
   SoaveRedlichKwong_init 8.314 \<lparr>p_crit = 0, T_crit = 190.6, acentric = 0.011\<rparr> =
     Inl ZeroDivisionError \<and>
   PengRobinson_init 8.314 \<lparr>p_crit = 0, T_crit = 190.6, acentric = 0.011\<rparr> =
     Inl ZeroDivisionError"
  by (simp add: init_zero)

text \<open>
  C4, as the code has it: for every fluid with \<open>p_crit \<noteq> 0\<close>, of either sign, the
  constructors, computing over the reals, reach the call of the parent constructor and
  pass the parameters of the specification's table (first argument \<open>b\<close>, third \<open>\<delta>1\<close>,
  fourth \<open>\<delta>2\<close>): Redlich-Kwong and Soave-Redlich-Kwong pass
  \<open>b = 0.08664 R T_crit / p_crit\<close> with \<open>\<delta>1 = b\<close> and \<open>\<delta>2 = 0\<close>, Peng-Robinson passes
  \<open>b = 0.07780 R T_crit / p_crit\<close> with \<open>\<delta>1 = 2 b\<close> and \<open>\<delta>2 = - b\<^sup>2\<close>.
\<close>

theorem constructors_pass_parameters:
  assumes "p_crit fl \<noteq> 0"
  shows "(\<exists>rk srk pr.
       RedlichKwong_init R fl = Inr rk \<and> SoaveRedlichKwong_init R fl = Inr srk \<and>
       PengRobinson_init R fl = Inr pr \<and>
       rk_super rk =
         \<lparr>arg1 = 0.08664 * R * T_crit fl / p_crit fl, arg2 = 0,
          arg3 = 0.08664 * R * T_crit fl / p_crit fl,
          arg4 = 0, arg_fluid = fl\<rparr> \<and>
       srk_super srk =
         \<lparr>arg1 = 0.08664 * R * T_crit fl / p_crit fl, arg2 = 0,
          arg3 = 0.08664 * R * T_crit fl / p_crit fl,
          arg4 = 0, arg_fluid = fl\<rparr> \<and>
       pr_super pr =
         \<lparr>arg1 = 0.07780 * R * T_crit fl / p_crit fl, arg2 = 0,
          arg3 = 2 * (0.07780 * R * T_crit fl / p_crit fl),
          arg4 = - ((0.07780 * R * T_crit fl / p_crit fl)\<^sup>2), arg_fluid = fl\<rparr>)"
  unfolding RedlichKwong_init_nonzero [OF assms] SoaveRedlichKwong_init_nonzero [OF assms]
    PengRobinson_init_nonzero [OF assms]
  by simp

theorem constructors_pass_parameters_witness:
  "p_crit methane_like \<noteq> 0 \<and>
   (\<exists>rk srk pr.
       RedlichKwong_init 8.314 methane_like = Inr rk \<and> SoaveRedlichKwong_init 8.314 methane_like = Inr srk \<and>
       PengRobinson_init 8.314 methane_like = Inr pr \<and>
       rk_super rk =
         \<lparr>arg1 = 0.08664 * 8.314 * T_crit methane_like / p_crit methane_like, arg2 = 0,
          arg3 = 0.08664 * 8.314 * T_crit methane_like / p_crit methane_like,
          arg4 = 0, arg_fluid = methane_like\<rparr> \<and>
       srk_super srk =
         \<lparr>arg1 = 0.08664 * 8.314 * T_crit methane_like / p_crit methane_like, arg2 = 0,
          arg3 = 0.08664 * 8.314 * T_crit methane_like / p_crit methane_like,
          arg4 = 0, arg_fluid = methane_like\<rparr> \<and>
       pr_super pr =
         \<lparr>arg1 = 0.07780 * 8.314 * T_crit methane_like / p_crit methane_like, arg2 = 0,
          arg3 = 2 * (0.07780 * 8.314 * T_crit methane_like / p_crit methane_like),
          arg4 = - ((0.07780 * 8.314 * T_crit methane_like / p_crit methane_like)\<^sup>2), arg_fluid = methane_like\<rparr>)"
proof -
  have h1: "p_crit methane_like \<noteq> 0" by (simp add: methane_like_def)
  show ?thesis
    by (intro conjI h1 constructors_pass_parameters [OF h1])
qed

text \<open>
  C5. The specification asks that \<^verbatim>\<open>get_a\<close> be strictly positive for the three
  families, every fluid with \<open>p_crit > 0\<close> and \<open>T_crit > 0\<close> (any acentric factor) and
  every \<open>T > 0\<close>. The Soave form \<open>\<alpha>0\<^sup>2 \<cdot> a0\<close> vanishes where \<open>\<alpha>0 = 0\<close>: with
  \<open>\<omega> = 0\<close> the Soave-Redlich-Kwong \<open>\<kappa>\<close> is \<open>0.48508\<close>, and \<open>\<alpha>0 = 0\<close> at
  \<open>sqrt (T / T_crit) = 1 + 1 / \<kappa> = 37127 / 12127\<close>. Over the reals the method returns
  \<open>0\<close> there.
\<close>

theorem get_a_positive_counterexample:
  "SoaveRedlichKwong_init 8.314 \<lparr>p_crit = 4600000, T_crit = 147.064129, acentric = 0\<rparr> =
     Inr \<lparr>srk_acentric = 0, srk_p_crit = 4600000, srk_T_crit = 147.064129,
       srk_a0 = 0.42748 * 8.314\<^sup>2 * 147.064129\<^sup>2 / 4600000, srk_kappa = 0.48508,
       srk_super = \<lparr>arg1 = 0.08664 * 8.314 * 147.064129 / 4600000, arg2 = 0,
                    arg3 = 0.08664 * 8.314 * 147.064129 / 4600000, arg4 = 0,
                    arg_fluid = \<lparr>p_crit = 4600000, T_crit = 147.064129, acentric = 0\<rparr>\<rparr>\<rparr> \<and>
   SoaveRedlichKwong_get_a
     \<lparr>srk_acentric = 0, srk_p_crit = 4600000, srk_T_crit = 147.064129,
       srk_a0 = 0.42748 * 8.314\<^sup>2 * 147.064129\<^sup>2 / 4600000, srk_kappa = 0.48508,
       srk_super = \<lparr>arg1 = 0.08664 * 8.314 * 147.064129 / 4600000, arg2 = 0,
                    arg3 = 0.08664 * 8.314 * 147.064129 / 4600000, arg4 = 0,
                    arg_fluid = \<lparr>p_crit = 4600000, T_crit = 147.064129, acentric = 0\<rparr>\<rparr>\<rparr>
     1378.414129 = Inr 0"
proof -
  have sq: "sqrt (1378414129 / 147064129) = 37127 / 12127"
    by (rule real_sqrt_unique) (simp_all add: power2_eq_square)
  show ?thesis
    by (simp add: SoaveRedlichKwong_init_nonzero SoaveRedlichKwong_get_a_domain sq)
qed

text \<open>
  C5, as the code has it (the gas constant \<open>R\<close> being positive): for every fluid with
  \<open>p_crit > 0\<close> and \<open>T_crit > 0\<close> and every \<open>T > 0\<close>, \<^verbatim>\<open>get_a\<close> of the Redlich-Kwong
  instance is strictly positive, and \<^verbatim>\<open>get_a\<close> of the Soave-Redlich-Kwong and of the
  Peng-Robinson instance is strictly positive wherever
  \<open>1 + \<kappa> (1 - sqrt (T / T_crit)) \<noteq> 0\<close>.
\<close>

theorem get_a_positive_off_alpha_zero:
  assumes "0 < R" "0 < p_crit fl" "0 < T_crit fl" "0 < T"
  shows "(\<exists>rk srk pr a_rk a_srk a_pr.
       RedlichKwong_init R fl = Inr rk \<and> SoaveRedlichKwong_init R fl = Inr srk \<and>
       PengRobinson_init R fl = Inr pr \<and>
       RedlichKwong_get_a rk T = Inr a_rk \<and> SoaveRedlichKwong_get_a srk T = Inr a_srk \<and>
       PengRobinson_get_a pr T = Inr a_pr \<and>
       0 < a_rk \<and>
       (1 + (0.48508 + 1.55171 * acentric fl - 0.15613 * (acentric fl)\<^sup>2) * (1 - sqrt (T / T_crit fl)) \<noteq> 0
          \<longrightarrow> 0 < a_srk) \<and>
       (1 + (0.37464 + 1.54226 * acentric fl - 0.26992 * (acentric fl)\<^sup>2) * (1 - sqrt (T / T_crit fl)) \<noteq> 0
          \<longrightarrow> 0 < a_pr))"
proof -
  have nz: "p_crit fl \<noteq> 0" using assms by simp
  have s: "0 < sqrt (T / T_crit fl)" using assms by simp
  have a1: "0 < 0.42748 * R\<^sup>2 * (T_crit fl)\<^sup>2 / p_crit fl" using assms by simp
  have a2: "0 < 0.45724 * R\<^sup>2 * (T_crit fl)\<^sup>2 / p_crit fl" using assms by simp
  have rk: "0 < (0.42748 * R\<^sup>2 * (T_crit fl)\<^sup>2 / p_crit fl) / sqrt (T / T_crit fl)"
    using a1 s by (rule divide_pos_pos)
  have sq: "x \<noteq> 0 \<Longrightarrow> 0 < a \<Longrightarrow> 0 < x\<^sup>2 * a" for x a :: real
    by simp
  show ?thesis
    unfolding RedlichKwong_init_nonzero [OF nz] SoaveRedlichKwong_init_nonzero [OF nz]
      PengRobinson_init_nonzero [OF nz]
    using assms(2-4) rk sq [OF _ a1] sq [OF _ a2]
    by (simp add: RedlichKwong_get_a_domain SoaveRedlichKwong_get_a_domain
        PengRobinson_get_a_domain del: zero_less_mult_iff zero_less_divide_iff)
qed

theorem get_a_positive_off_alpha_zero_witness:
  "(0::real) < 8.314 \<and> 0 < p_crit methane_like \<and> 0 < T_crit methane_like \<and> (0::real) < 762.4 \<and>
   1 + (0.48508 + 1.55171 * acentric methane_like - 0.15613 * (acentric methane_like)\<^sup>2) * (1 - sqrt (762.4 / T_crit methane_like)) \<noteq> 0 \<and>
   1 + (0.37464 + 1.54226 * acentric methane_like - 0.26992 * (acentric methane_like)\<^sup>2) * (1 - sqrt (762.4 / T_crit methane_like)) \<noteq> 0 \<and>
   (\<exists>rk srk pr a_rk a_srk a_pr.
       RedlichKwong_init 8.314 methane_like = Inr rk \<and> SoaveRedlichKwong_init 8.314 methane_like = Inr srk \<and>
       PengRobinson_init 8.314 methane_like = Inr pr \<and>
       RedlichKwong_get_a rk 762.4 = Inr a_rk \<and> SoaveRedlichKwong_get_a srk 762.4 = Inr a_srk \<and>
       PengRobinson_get_a pr 762.4 = Inr a_pr \<and>
       0 < a_rk \<and> 0 < a_srk \<and> 0 < a_pr)"
proof -
  have h1: "(0::real) < 8.314" by simp
  have h2: "0 < p_crit methane_like" by (simp add: methane_like_def)
  have h3: "0 < T_crit methane_like" by (simp add: methane_like_def)
  have h4: "(0::real) < 762.4" by simp
  have n1: "1 + (0.48508 + 1.55171 * acentric methane_like - 0.15613 * (acentric methane_like)\<^sup>2) * (1 - sqrt (762.4 / T_crit methane_like)) \<noteq> 0"
    by (simp add: methane_like_def power2_eq_square)
  have n2: "1 + (0.37464 + 1.54226 * acentric methane_like - 0.26992 * (acentric methane_like)\<^sup>2) * (1 - sqrt (762.4 / T_crit methane_like)) \<noteq> 0"
    by (simp add: methane_like_def power2_eq_square)
  show ?thesis
    using get_a_positive_off_alpha_zero [OF h1 h2 h3 h4] n1 n2
    by (intro conjI h1 h2 h3 h4 n1 n2) blast
qed

text \<open>
  C6. The specification asks that construction from a fluid with \<open>p_crit \<le> 0\<close> or
  \<open>T_crit \<le> 0\<close> fail with a \<^verbatim>\<open>ConfigError\<close> and succeed otherwise. The constructors
  contain no check of the fluid: with \<open>p_crit = 0\<close> the first statement that divides by
  \<^verbatim>\<open>self.p_crit\<close> raises \<^verbatim>\<open>ZeroDivisionError\<close>, before the parent constructor is
  called.
\<close>

theorem construction_config_error_counterexample:
  "p_crit \<lparr>p_crit = 0, T_crit = 190.6, acentric = 0.011\<rparr> \<le> 0 \<and>
   RedlichKwong_init 8.314 \<lparr>p_crit = 0, T_crit = 190.6, acentric = 0.011\<rparr> = Inl ZeroDivisionError \<and>
   RedlichKwong_init 8.314 \<lparr>p_crit = 0, T_crit = 190.6, acentric = 0.011\<rparr> \<noteq> Inl ConfigError"
  by (simp add: init_zero)

text \<open>
  C6, as the code has it, for plain Python floats with \<open>\<bar>R\<bar>\<close>, \<open>\<bar>T_crit\<bar>\<close>, \<open>\<bar>\<omega>\<bar>\<close> and
  \<open>\<bar>b\<bar>\<close> at most \<open>10\<^sup>1\<^sup>5\<^sup>0\<close>, and for the statements of a constructor that precede its
  call of the parent constructor: from a fluid with \<open>p_crit = 0\<close> each of the three
  constructors raises \<^verbatim>\<open>ZeroDivisionError\<close>, at the division by \<^verbatim>\<open>self.p_crit\<close>; from
  a fluid with \<open>p_crit > 0\<close> and \<open>T_crit > 0\<close> these statements raise nothing and the
  parent constructor is called. Nothing is said of a negative \<open>p_crit\<close>, of
  \<open>T_crit \<le> 0\<close> with \<open>p_crit \<noteq> 0\<close>, or of what the parent constructor does.
\<close>

theorem construction_outcomes:
  assumes "\<bar>R\<bar> \<le> 10 ^ 150" "\<bar>T_crit fl\<bar> \<le> 10 ^ 150" "\<bar>acentric fl\<bar> \<le> 10 ^ 150"
  shows "(p_crit fl = 0 \<longrightarrow>
       RedlichKwong_init R fl = Inl ZeroDivisionError \<and>
       SoaveRedlichKwong_init R fl = Inl ZeroDivisionError \<and>
       PengRobinson_init R fl = Inl ZeroDivisionError) \<and>
   (0 < p_crit fl \<and> 0 < T_crit fl \<and> \<bar>0.07780 * R * T_crit fl / p_crit fl\<bar> \<le> 10 ^ 150 \<longrightarrow>
       (\<exists>rk. RedlichKwong_init R fl = Inr rk) \<and>
       (\<exists>srk. SoaveRedlichKwong_init R fl = Inr srk) \<and>
       (\<exists>pr. PengRobinson_init R fl = Inr pr))"
proof (rule conjI)
  show "p_crit fl = 0 \<longrightarrow>
       RedlichKwong_init R fl = Inl ZeroDivisionError \<and>
       SoaveRedlichKwong_init R fl = Inl ZeroDivisionError \<and>
       PengRobinson_init R fl = Inl ZeroDivisionError"
    by (simp add: init_zero)
  show "0 < p_crit fl \<and> 0 < T_crit fl \<and> \<bar>0.07780 * R * T_crit fl / p_crit fl\<bar> \<le> 10 ^ 150 \<longrightarrow>
       (\<exists>rk. RedlichKwong_init R fl = Inr rk) \<and>
       (\<exists>srk. SoaveRedlichKwong_init R fl = Inr srk) \<and>
       (\<exists>pr. PengRobinson_init R fl = Inr pr)"
  proof (rule impI)
    assume "0 < p_crit fl \<and> 0 < T_crit fl \<and> \<bar>0.07780 * R * T_crit fl / p_crit fl\<bar> \<le> 10 ^ 150"
    then have nz: "p_crit fl \<noteq> 0" by simp
    show "(\<exists>rk. RedlichKwong_init R fl = Inr rk) \<and>
       (\<exists>srk. SoaveRedlichKwong_init R fl = Inr srk) \<and>
       (\<exists>pr. PengRobinson_init R fl = Inr pr)"
      by (simp add: RedlichKwong_init_nonzero [OF nz] SoaveRedlichKwong_init_nonzero [OF nz]
          PengRobinson_init_nonzero [OF nz])
  qed
qed

text \<open>
  Both cases occur: the methane-like fluid with its critical pressure set to \<open>0\<close>, and
  the methane-like fluid itself.
\<close>

theorem construction_outcomes_witness:
  "\<bar>8.314 :: real\<bar> \<le> 10 ^ 150 \<and>
   \<bar>T_crit (methane_like\<lparr>p_crit := 0\<rparr>)\<bar> \<le> 10 ^ 150 \<and>
   \<bar>acentric (methane_like\<lparr>p_crit := 0\<rparr>)\<bar> \<le> 10 ^ 150 \<and>
   p_crit (methane_like\<lparr>p_crit := 0\<rparr>) = 0 \<and>
   RedlichKwong_init 8.314 (methane_like\<lparr>p_crit := 0\<rparr>) = Inl ZeroDivisionError \<and>
   SoaveRedlichKwong_init 8.314 (methane_like\<lparr>p_crit := 0\<rparr>) = Inl ZeroDivisionError \<and>
   PengRobinson_init 8.314 (methane_like\<lparr>p_crit := 0\<rparr>) = Inl ZeroDivisionError \<and>
   \<bar>T_crit methane_like\<bar> \<le> 10 ^ 150 \<and> \<bar>acentric methane_like\<bar> \<le> 10 ^ 150 \<and>
   0 < p_crit methane_like \<and> 0 < T_crit methane_like \<and>
   \<bar>0.07780 * 8.314 * T_crit methane_like / p_crit methane_like\<bar> \<le> 10 ^ 150 \<and>
   (\<exists>rk. RedlichKwong_init 8.314 methane_like = Inr rk) \<and>
   (\<exists>srk. SoaveRedlichKwong_init 8.314 methane_like = Inr srk) \<and>
   (\<exists>pr. PengRobinson_init 8.314 methane_like = Inr pr)"
proof -
  have r: "\<bar>8.314 :: real\<bar> \<le> 10 ^ 150" by simp
  have z1: "\<bar>T_crit (methane_like\<lparr>p_crit := 0\<rparr>)\<bar> \<le> 10 ^ 150"
    by (simp add: methane_like_def)
  have z2: "\<bar>acentric (methane_like\<lparr>p_crit := 0\<rparr>)\<bar> \<le> 10 ^ 150"
    by (simp add: methane_like_def)
  have z3: "p_crit (methane_like\<lparr>p_crit := 0\<rparr>) = 0" by simp
  have m1: "\<bar>T_crit methane_like\<bar> \<le> 10 ^ 150" by (simp add: methane_like_def)
  have m2: "\<bar>acentric methane_like\<bar> \<le> 10 ^ 150" by (simp add: methane_like_def)
  have m3: "0 < p_crit methane_like" by (simp add: methane_like_def)
  have m4: "0 < T_crit methane_like" by (simp add: methane_like_def)
  have m5: "\<bar>0.07780 * 8.314 * T_crit methane_like / p_crit methane_like\<bar> \<le> 10 ^ 150"
    by (simp add: methane_like_def)
  show ?thesis
    using construction_outcomes [OF r z1 z2] construction_outcomes [OF r m1 m2]
    by (intro conjI r z1 z2 z3 m1 m2 m3 m4 m5) (use z3 m3 m4 m5 in blast)+
qed

text \<open>
  C7. The methods of Soave-Redlich-Kwong and of Peng-Robinson are one function of the
  stored \<open>(a0, kappa, T_crit)\<close>: a Soave-Redlich-Kwong instance and a Peng-Robinson
  instance that store the same \<open>a0\<close>, \<open>kappa\<close> and \<open>T_crit\<close> return equal results from
  \<^verbatim>\<open>get_a\<close>, \<^verbatim>\<open>get_diff_a_T\<close> and \<^verbatim>\<open>get_double_diff_a_T\<close> at every temperature
  (in particular at every \<open>T > 0\<close>, and for instances built from two fluids).
\<close>

theorem soave_peng_same_function:
  assumes "srk_a0 s = pr_a0 p" "srk_kappa s = pr_kappa p" "srk_T_crit s = pr_T_crit p"
  shows "SoaveRedlichKwong_get_a s T = PengRobinson_get_a p T \<and>
   SoaveRedlichKwong_get_diff_a_T s T = PengRobinson_get_diff_a_T p T \<and>
   SoaveRedlichKwong_get_double_diff_a_T s T = PengRobinson_get_double_diff_a_T p T"
  using assms
  by (simp add: SoaveRedlichKwong_get_a_def PengRobinson_get_a_def
      SoaveRedlichKwong_get_diff_a_T_def PengRobinson_get_diff_a_T_def
      SoaveRedlichKwong_get_double_diff_a_T_def PengRobinson_get_double_diff_a_T_def)

text \<open>
  Two fluids whose instances store the same constants: the Peng-Robinson fluid has
  \<open>\<omega> = 0\<close>, hence \<open>\<kappa> = 0.37464\<close>; the acentric factor of the Soave-Redlich-Kwong fluid is
  the negative root of \<open>0.48508 + 1.55171 \<omega> - 0.15613 \<omega>\<^sup>2 = 0.37464\<close>; the critical
  pressures are in the ratio \<open>0.42748 : 0.45724\<close>.
\<close>

theorem soave_peng_same_function_witness:
  "\<exists>s p.
     SoaveRedlichKwong_init 8.314
       \<lparr>p_crit = 4274800, T_crit = 190.6, acentric = (1.55171 - sqrt 2.4767759129) / 0.31226\<rparr> = Inr s \<and>
     PengRobinson_init 8.314 \<lparr>p_crit = 4572400, T_crit = 190.6, acentric = 0\<rparr> = Inr p \<and>
     srk_a0 s = pr_a0 p \<and> srk_kappa s = pr_kappa p \<and> srk_T_crit s = pr_T_crit p \<and>
     SoaveRedlichKwong_get_a s 250 = PengRobinson_get_a p 250 \<and>
     SoaveRedlichKwong_get_diff_a_T s 250 = PengRobinson_get_diff_a_T p 250 \<and>
     SoaveRedlichKwong_get_double_diff_a_T s 250 = PengRobinson_get_double_diff_a_T p 250"
proof -
  define r :: real where "r = sqrt 2.4767759129"
  have rr: "r * r = 2.4767759129" unfolding r_def by simp
  have "0.48508 + 1.55171 * ((1.55171 - r) / 0.31226)
          - 0.15613 * ((1.55171 - r) / 0.31226)\<^sup>2 = (0.37464::real)"
    using rr by (simp add: field_simps power2_eq_square)
  then have kappa: "0.48508 + 1.55171 * ((1.55171 - sqrt 2.4767759129) / 0.31226)
          - 0.15613 * ((1.55171 - sqrt 2.4767759129) / 0.31226)\<^sup>2 = (0.37464::real)"
    by (simp only: r_def)
  obtain s where s: "SoaveRedlichKwong_init 8.314
       \<lparr>p_crit = 4274800, T_crit = 190.6, acentric = (1.55171 - sqrt 2.4767759129) / 0.31226\<rparr> = Inr s"
    and sa: "srk_a0 s = 0.42748 * 8.314\<^sup>2 * 190.6\<^sup>2 / 4274800"
    and sk: "srk_kappa s = 0.37464" and sT: "srk_T_crit s = 190.6"
    using kappa by (simp add: SoaveRedlichKwong_init_nonzero)
  obtain p where p: "PengRobinson_init 8.314 \<lparr>p_crit = 4572400, T_crit = 190.6, acentric = 0\<rparr> = Inr p"
    and pa: "pr_a0 p = 0.45724 * 8.314\<^sup>2 * 190.6\<^sup>2 / 4572400"
    and pk: "pr_kappa p = 0.37464" and pT: "pr_T_crit p = 190.6"
    by (simp add: PengRobinson_init_nonzero)
  have e1: "srk_a0 s = pr_a0 p" unfolding sa pa by simp
  have e2: "srk_kappa s = pr_kappa p" unfolding sk pk by simp
  have e3: "srk_T_crit s = pr_T_crit p" unfolding sT pT by simp
  show ?thesis
    using s p e1 e2 e3 soave_peng_same_function [OF e1 e2 e3, of 250] by blast
qed

text \<open>
  C8. The results of Redlich-Kwong do not depend on the acentric factor: for two fluids
  with the same \<open>p_crit\<close> and \<open>T_crit\<close> (and the same \<open>R\<close>), building the instance and
  calling \<^verbatim>\<open>get_a\<close>, \<^verbatim>\<open>get_diff_a_T\<close> or \<^verbatim>\<open>get_double_diff_a_T\<close> gives the same
  result for both fluids, at every temperature.
\<close>

theorem redlich_kwong_ignores_acentric:
  assumes "p_crit f1 = p_crit f2" "T_crit f1 = T_crit f2"
  shows "and_then (RedlichKwong_init R f1) (\<lambda>self. RedlichKwong_get_a self T) =
     and_then (RedlichKwong_init R f2) (\<lambda>self. RedlichKwong_get_a self T) \<and>
   and_then (RedlichKwong_init R f1) (\<lambda>self. RedlichKwong_get_diff_a_T self T) =
     and_then (RedlichKwong_init R f2) (\<lambda>self. RedlichKwong_get_diff_a_T self T) \<and>
   and_then (RedlichKwong_init R f1) (\<lambda>self. RedlichKwong_get_double_diff_a_T self T) =
     and_then (RedlichKwong_init R f2) (\<lambda>self. RedlichKwong_get_double_diff_a_T self T)"
proof (cases "p_crit f2 = 0")
  case True
  then show ?thesis using assms by (simp add: init_zero and_then_Inl)
next
  case False
  then have "p_crit f1 \<noteq> 0" using assms by simp
  then show ?thesis
    using False assms
    by (simp add: RedlichKwong_init_nonzero and_then_Inr RedlichKwong_get_a_def
        RedlichKwong_get_diff_a_T_def RedlichKwong_get_double_diff_a_T_def)
qed

theorem redlich_kwong_ignores_acentric_witness:
  "p_crit methane_like = p_crit (methane_like\<lparr>acentric := 0.5\<rparr>) \<and>
   T_crit methane_like = T_crit (methane_like\<lparr>acentric := 0.5\<rparr>) \<and>
   acentric methane_like \<noteq> acentric (methane_like\<lparr>acentric := 0.5\<rparr>) \<and>
   and_then (RedlichKwong_init 8.314 methane_like) (\<lambda>self. RedlichKwong_get_a self 250) =
     and_then (RedlichKwong_init 8.314 (methane_like\<lparr>acentric := 0.5\<rparr>)) (\<lambda>self. RedlichKwong_get_a self 250) \<and>
   and_then (RedlichKwong_init 8.314 methane_like) (\<lambda>self. RedlichKwong_get_diff_a_T self 250) =
     and_then (RedlichKwong_init 8.314 (methane_like\<lparr>acentric := 0.5\<rparr>)) (\<lambda>self. RedlichKwong_get_diff_a_T self 250) \<and>
   and_then (RedlichKwong_init 8.314 methane_like) (\<lambda>self. RedlichKwong_get_double_diff_a_T self 250) =
     and_then (RedlichKwong_init 8.314 (methane_like\<lparr>acentric := 0.5\<rparr>)) (\<lambda>self. RedlichKwong_get_double_diff_a_T self 250)"
proof -
  have h1: "p_crit methane_like = p_crit (methane_like\<lparr>acentric := 0.5\<rparr>)"
    by simp
  have h2: "T_crit methane_like = T_crit (methane_like\<lparr>acentric := 0.5\<rparr>)"
    by simp
  have h3: "acentric methane_like \<noteq> acentric (methane_like\<lparr>acentric := 0.5\<rparr>)"
    by (simp add: methane_like_def)
  show ?thesis
    by (intro conjI h1 h2 h3 redlich_kwong_ignores_acentric [OF h1 h2])
qed

text \<open>
  C9. For each of the three families and every fluid with \<open>p_crit > 0\<close> and
  \<open>T_crit > 0\<close>, \<^verbatim>\<open>get_a\<close> at the critical temperature returns the stored constant
  \<^verbatim>\<open>a0\<close>.
\<close>

theorem get_a_at_critical_temperature:
  assumes "0 < p_crit fl" "0 < T_crit fl"
  shows "(\<exists>rk srk pr.
       RedlichKwong_init R fl = Inr rk \<and> SoaveRedlichKwong_init R fl = Inr srk \<and>
       PengRobinson_init R fl = Inr pr \<and>
       RedlichKwong_get_a rk (T_crit fl) = Inr (rk_a0 rk) \<and>
       SoaveRedlichKwong_get_a srk (T_crit fl) = Inr (srk_a0 srk) \<and>
       PengRobinson_get_a pr (T_crit fl) = Inr (pr_a0 pr))"
proof -
  have nz: "p_crit fl \<noteq> 0" using assms by simp
  show ?thesis
    unfolding RedlichKwong_init_nonzero [OF nz] SoaveRedlichKwong_init_nonzero [OF nz]
      PengRobinson_init_nonzero [OF nz]
    using assms
    by (simp add: RedlichKwong_get_a_domain SoaveRedlichKwong_get_a_domain
        PengRobinson_get_a_domain)
qed

theorem get_a_at_critical_temperature_witness:
  "0 < p_crit methane_like \<and> 0 < T_crit methane_like \<and>
   (\<exists>rk srk pr.
       RedlichKwong_init 8.314 methane_like = Inr rk \<and> SoaveRedlichKwong_init 8.314 methane_like = Inr srk \<and>
       PengRobinson_init 8.314 methane_like = Inr pr \<and>
       RedlichKwong_get_a rk (T_crit methane_like) = Inr (rk_a0 rk) \<and>
       SoaveRedlichKwong_get_a srk (T_crit methane_like) = Inr (srk_a0 srk) \<and>
       PengRobinson_get_a pr (T_crit methane_like) = Inr (pr_a0 pr))"
proof -
  have h1: "0 < p_crit methane_like" by (simp add: methane_like_def)
  have h2: "0 < T_crit methane_like" by (simp add: methane_like_def)
  show ?thesis
    by (intro conjI h1 h2 get_a_at_critical_temperature [OF h1 h2])
qed

text \<open>
  C10. For Soave-Redlich-Kwong and Peng-Robinson, every fluid with \<open>p_crit > 0\<close> and
  \<open>T_crit > 0\<close> (any acentric factor; the gas constant \<open>R\<close> being positive) and every
  \<open>T > 0\<close>, \<^verbatim>\<open>get_a\<close> returns a nonnegative number, which is zero exactly when
  \<open>1 + \<kappa> (1 - sqrt (T / T_crit)) = 0\<close>.
\<close>

theorem soave_peng_get_a_nonnegative:
  assumes "0 < R" "0 < p_crit fl" "0 < T_crit fl" "0 < T"
  shows "(\<exists>srk pr a_srk a_pr.
       SoaveRedlichKwong_init R fl = Inr srk \<and> PengRobinson_init R fl = Inr pr \<and>
       SoaveRedlichKwong_get_a srk T = Inr a_srk \<and> PengRobinson_get_a pr T = Inr a_pr \<and>
       0 \<le> a_srk \<and>
       (a_srk = 0) =
         (1 + (0.48508 + 1.55171 * acentric fl - 0.15613 * (acentric fl)\<^sup>2) * (1 - sqrt (T / T_crit fl)) = 0) \<and>
       0 \<le> a_pr \<and>
       (a_pr = 0) =
         (1 + (0.37464 + 1.54226 * acentric fl - 0.26992 * (acentric fl)\<^sup>2) * (1 - sqrt (T / T_crit fl)) = 0))"
proof -
  let ?xs = "1 + (0.48508 + 1.55171 * acentric fl - 0.15613 * (acentric fl)\<^sup>2) * (1 - sqrt (T / T_crit fl))"
  let ?xp = "1 + (0.37464 + 1.54226 * acentric fl - 0.26992 * (acentric fl)\<^sup>2) * (1 - sqrt (T / T_crit fl))"
  let ?as = "0.42748 * R\<^sup>2 * (T_crit fl)\<^sup>2 / p_crit fl"
  let ?ap = "0.45724 * R\<^sup>2 * (T_crit fl)\<^sup>2 / p_crit fl"
  have nz: "p_crit fl \<noteq> 0" using assms by simp
  have a1: "0 < ?as" using assms by simp
  have a2: "0 < ?ap" using assms by simp
  have ge: "0 < a \<Longrightarrow> 0 \<le> x\<^sup>2 * a" for x a :: real
    by simp
  have eq: "0 < a \<Longrightarrow> (x\<^sup>2 * a = 0) = (x = 0)" for x a :: real
    by simp
  obtain srk where i1: "SoaveRedlichKwong_init R fl = Inr srk"
    and s1: "srk_a0 srk = ?as" "srk_kappa srk = 0.48508 + 1.55171 * acentric fl - 0.15613 * (acentric fl)\<^sup>2"
      "srk_T_crit srk = T_crit fl"
    by (simp add: SoaveRedlichKwong_init_nonzero [OF nz])
  obtain pr where i2: "PengRobinson_init R fl = Inr pr"
    and s2: "pr_a0 pr = ?ap" "pr_kappa pr = 0.37464 + 1.54226 * acentric fl - 0.26992 * (acentric fl)\<^sup>2"
      "pr_T_crit pr = T_crit fl"
    by (simp add: PengRobinson_init_nonzero [OF nz])
  have g1: "SoaveRedlichKwong_get_a srk T = Inr (?xs\<^sup>2 * ?as)"
    using assms(3,4) by (simp add: SoaveRedlichKwong_get_a_domain s1)
  have g2: "PengRobinson_get_a pr T = Inr (?xp\<^sup>2 * ?ap)"
    using assms(3,4) by (simp add: PengRobinson_get_a_domain s2)
  show ?thesis
    using i1 i2 g1 g2 ge [OF a1, of ?xs] ge [OF a2, of ?xp] eq [OF a1, of ?xs] eq [OF a2, of ?xp]
    by blast
qed

theorem soave_peng_get_a_nonnegative_witness:
  "(0::real) < 8.314 \<and> 0 < p_crit methane_like \<and> 0 < T_crit methane_like \<and> (0::real) < 250 \<and>
   (\<exists>srk pr a_srk a_pr.
       SoaveRedlichKwong_init 8.314 methane_like = Inr srk \<and> PengRobinson_init 8.314 methane_like = Inr pr \<and>
       SoaveRedlichKwong_get_a srk 250 = Inr a_srk \<and> PengRobinson_get_a pr 250 = Inr a_pr \<and>
       0 \<le> a_srk \<and>
       (a_srk = 0) =
         (1 + (0.48508 + 1.55171 * acentric methane_like - 0.15613 * (acentric methane_like)\<^sup>2) * (1 - sqrt (250 / T_crit methane_like)) = 0) \<and>
       0 \<le> a_pr \<and>
       (a_pr = 0) =
         (1 + (0.37464 + 1.54226 * acentric methane_like - 0.26992 * (acentric methane_like)\<^sup>2) * (1 - sqrt (250 / T_crit methane_like)) = 0))"
proof -
  have h1: "(0::real) < 8.314" by simp
  have h2: "0 < p_crit methane_like" by (simp add: methane_like_def)
  have h3: "0 < T_crit methane_like" by (simp add: methane_like_def)
  have h4: "(0::real) < 250" by simp
  show ?thesis
    by (intro conjI h1 h2 h3 h4 soave_peng_get_a_nonnegative [OF h1 h2 h3 h4])
qed

end
